theory Spec2Isabelle
  imports Complex_Main "HOL-Library.Multiset"
begin

section \<open>Data received from the Query Service\<close>

text \<open>
  The two scripts of the presentation layer (the trace list page, and the trace detail
  viewer \<^verbatim>\<open>server/static/trace-viewer.js\<close>) consume the JSON bodies of \<^verbatim>\<open>GET /api/traces\<close> and \<^verbatim>\<open>GET /api/trace/{trace_id}\<close>.
  The records below follow the shape of these bodies. A property that the scripts guard
  with \<^verbatim>\<open>||\<close> or with a conditional may be absent and is an \<open>option\<close>
  (\<open>None\<close> is JavaScript's \<^verbatim>\<open>undefined\<close>).

  JSON numbers are modelled as rationals; how a number or a date is printed
  (\<^verbatim>\<open>toFixed\<close>, \<^verbatim>\<open>toLocaleString\<close>) is not modelled: a rendered view holds the
  value itself.
\<close>

datatype json =
    JNull
  | JBool bool
  | JNum rat
  | JStr string
  | JArr "json list"
  | JObj "(string \<times> json) list"

text \<open>
  A timestamp as it stands in the JSON: a number, a string, or absent
  (\<^verbatim>\<open>undefined\<close>). The scripts hand it to \<^verbatim>\<open>new Date(...)\<close>. They never read
  \<^verbatim>\<open>end_time\<close>; a span that is still open has none.
\<close>

datatype timestamp =
    TimeNumber rat
  | TimeString string
  | NoTime

text \<open>The \<^verbatim>\<open>tokens\<close> object of an LLM call, \<^verbatim>\<open>{input, output}\<close>.\<close>

record token_counts =
  input_tokens :: int
  output_tokens :: int

record llm_call =
  model :: string
  prompt :: string
  response :: string
  tokens :: token_counts
  latency_ms :: rat
  cost :: "rat option"

record span =
  span_id :: string
  parent_span_id :: "string option"
  name :: string
  span_type :: string
  start_time :: timestamp
  end_time :: timestamp
  duration_ms :: "rat option"
  status :: string
  inputs :: json
  outputs :: json
  llm_calls :: "llm_call list"
  error :: "string option"
  error_type :: "string option"
  metadata :: json

text \<open>
  The aggregate metadata of a trace. The scripts read \<^verbatim>\<open>total_duration_ms\<close>,
  \<^verbatim>\<open>span_count\<close>, \<^verbatim>\<open>agent_id\<close> and \<^verbatim>\<open>framework\<close>; a stored aggregate
  \<^verbatim>\<open>status\<close> may be present as well.
\<close>

record trace_metadata =
  total_duration_ms :: "rat option"
  span_count :: "rat option"
  agent_id :: "string option"
  framework :: "string option"
  status :: "string option"

record trace =
  trace_id :: string
  name :: "string option"
  metadata :: "trace_metadata option"
  spans :: "span list"

text \<open>
  The body of \<^verbatim>\<open>GET /api/trace/{trace_id}\<close>: the full trace, or the not-found error
  body \<^verbatim>\<open>{error: "..."}\<close>.
\<close>

datatype trace_body =
    NotFound string
  | Trace trace

text \<open>Property reads on the body, as JavaScript evaluates them on each of the two shapes.\<close>

fun body_error :: "trace_body \<Rightarrow> string option" where
  "body_error (NotFound msg) = Some msg"
| "body_error (Trace t) = None"

fun body_name :: "trace_body \<Rightarrow> string option" where
  "body_name (NotFound msg) = None"
| "body_name (Trace t) = trace.name t"

fun body_trace_id :: "trace_body \<Rightarrow> string option" where
  "body_trace_id (NotFound msg) = None"
| "body_trace_id (Trace t) = Some (trace_id t)"

fun body_metadata :: "trace_body \<Rightarrow> trace_metadata option" where
  "body_metadata (NotFound msg) = None"
| "body_metadata (Trace t) = trace.metadata t"

fun body_spans :: "trace_body \<Rightarrow> span list option" where
  "body_spans (NotFound msg) = None"
| "body_spans (Trace t) = Some (spans t)"

text \<open>
  The outcome of \<^verbatim>\<open>fetch\<close> followed by \<^verbatim>\<open>response.json()\<close>: the fetch rejects,
  or it resolves and the body either fails to parse as JSON or parses.
\<close>

datatype 'a response =
    NotJson string
  | Json 'a

datatype 'a fetched =
    Rejected string
  | Resolved "'a response"

datatype exn =
    TypeError string
  | SyntaxError string
  | FetchError string

fun message :: "exn \<Rightarrow> string" where
  "message (TypeError m) = m"
| "message (SyntaxError m) = m"
| "message (FetchError m) = m"


section \<open>JavaScript operators used by the scripts\<close>

text \<open>Truthiness of a possibly absent string: \<^verbatim>\<open>undefined\<close> and \<^verbatim>\<open>''\<close> are falsy.\<close>

fun truthy :: "string option \<Rightarrow> bool" where
  "truthy None = False"
| "truthy (Some s) = (s \<noteq> [])"

text \<open>\<^verbatim>\<open>s || d\<close> on a possibly absent string.\<close>

fun or_string :: "string option \<Rightarrow> string \<Rightarrow> string" where
  "or_string None d = d"
| "or_string (Some s) d = (if s = [] then d else s)"

text \<open>A possibly absent string inside a template literal, \<^verbatim>\<open>${s}\<close>.\<close>

fun interpolate :: "string option \<Rightarrow> string" where
  "interpolate None = ''undefined''"
| "interpolate (Some s) = s"

text \<open>\<^verbatim>\<open>x || 0\<close> on a possibly absent number: \<^verbatim>\<open>undefined\<close> and \<^verbatim>\<open>0\<close> both give 0.\<close>

fun or_zero :: "rat option \<Rightarrow> rat" where
  "or_zero None = 0"
| "or_zero (Some x) = x"

text \<open>\<^verbatim>\<open>c ? ... : ''\<close> on a possibly absent number: \<^verbatim>\<open>undefined\<close> and \<^verbatim>\<open>0\<close> are falsy.\<close>

fun truthy_num :: "rat option \<Rightarrow> bool" where
  "truthy_num None = False"
| "truthy_num (Some x) = (x \<noteq> 0)"

text \<open>\<^verbatim>\<open>Array.prototype.some\<close> and \<^verbatim>\<open>Array.prototype.find\<close>.\<close>

fun some :: "('a \<Rightarrow> bool) \<Rightarrow> 'a list \<Rightarrow> bool" where
  "some p [] = False"
| "some p (x # xs) = (if p x then True else some p xs)"

fun find_first :: "('a \<Rightarrow> bool) \<Rightarrow> 'a list \<Rightarrow> 'a option" where
  "find_first p [] = None"
| "find_first p (x # xs) = (if p x then Some x else find_first p xs)"

text \<open>
  The time value of \<^verbatim>\<open>new Date(v)\<close>, in milliseconds; \<open>None\<close> is \<^verbatim>\<open>NaN\<close>, an
  invalid date. A number is clipped: beyond 8.64e15 milliseconds on either side it is
  invalid, within that range its fraction is cut off. A string goes through
  \<^verbatim>\<open>Date.parse\<close>, which belongs to the browser and is a parameter here. An absent
  value gives an invalid date.
\<close>

definition time_clip :: "rat \<Rightarrow> int option" where
  "time_clip x =
     (if \<bar>x\<bar> > 8640000000000000 then None
      else Some (if 0 \<le> x then \<lfloor>x\<rfloor> else \<lceil>x\<rceil>))"

fun date_value :: "(string \<Rightarrow> int option) \<Rightarrow> timestamp \<Rightarrow> int option" where
  "date_value parse (TimeNumber x) = time_clip x"
| "date_value parse (TimeString str) = parse str"
| "date_value parse NoTime = None"

text \<open>
  The comparator of both views,
  \<^verbatim>\<open>(a, b) => new Date(a.start_time) - new Date(b.start_time)\<close>: the difference of the
  two time values, \<^verbatim>\<open>NaN\<close> (\<open>None\<close>) as soon as one of the dates is invalid. Only the
  sign of the difference is used, which the subtraction of the integers has in common
  with the subtraction of the floating-point numbers.
\<close>

definition by_start_time :: "(string \<Rightarrow> int option) \<Rightarrow> span \<Rightarrow> span \<Rightarrow> int option" where
  "by_start_time parse a b =
     (case (date_value parse (start_time a), date_value parse (start_time b)) of
        (Some x, Some y) \<Rightarrow> Some (x - y)
      | _ \<Rightarrow> None)"

text \<open>
  \<^verbatim>\<open>Array.prototype.sort(comparefn)\<close>. ECMAScript requires the sort to be stable, and
  for a consistent comparator the result is then determined: it is the one computed
  here by inserting the elements from left to right, each one behind the elements that
  do not compare greater. A comparator that returns \<^verbatim>\<open>NaN\<close> for some pair of
  elements need not be consistent, and the order that the sort leaves then is left to
  the implementation by the standard: it is the parameter \<open>impl\<close>. The sort is in
  place: the caller stores the result back.
\<close>

fun sort_insert :: "('a \<Rightarrow> 'a \<Rightarrow> int option) \<Rightarrow> 'a \<Rightarrow> 'a list \<Rightarrow> 'a list" where
  "sort_insert cmp x [] = [x]"
| "sort_insert cmp x (y # ys) =
     (if (case cmp x y of Some d \<Rightarrow> d < 0 | None \<Rightarrow> False)
      then x # y # ys else y # sort_insert cmp x ys)"

text \<open>Whether the comparator returns a number for every pair of elements of the array.\<close>

definition never_NaN :: "('a \<Rightarrow> 'a \<Rightarrow> int option) \<Rightarrow> 'a list \<Rightarrow> bool" where
  "never_NaN cmp xs = list_all (\<lambda>a. list_all (\<lambda>b. cmp a b \<noteq> None) xs) xs"

definition array_sort ::
  "('a list \<Rightarrow> 'a list) \<Rightarrow> ('a \<Rightarrow> 'a \<Rightarrow> int option) \<Rightarrow> 'a list \<Rightarrow> 'a list" where
  "array_sort impl cmp xs =
     (if never_NaN cmp xs
      then foldl (\<lambda>acc x. sort_insert cmp x acc) [] xs
      else impl xs)"


section \<open>The pages\<close>

text \<open>
  What a template of the scripts renders is kept as a value with one field per hole of
  the template, so that a theorem can speak about the class of a node or the label of a
  status without parsing markup. The constructors of \<open>html\<close> are the templates of the two
  scripts; \<open>Markup\<close> is content that the scripts did not write (the initial page).
\<close>

datatype icon = RedCircle | GreenCircle

record metadata_view =
  mv_status_class :: string
  mv_status_label :: string
  mv_total_duration :: rat
  mv_span_count :: rat
  mv_start_time :: timestamp
  mv_agent :: "string option"
  mv_framework :: "string option"

record span_node =
  sn_status_class :: string
  sn_indent :: string
  sn_onclick :: string
  sn_icon :: icon
  sn_name :: string
  sn_span_type :: string
  sn_duration :: rat
  sn_llm_calls :: "nat option"

record span_row =
  sr_status_class :: string
  sr_onclick :: string
  sr_name :: string
  sr_span_type :: string
  sr_duration :: rat
  sr_start_time :: timestamp

record llm_call_view =
  lv_number :: nat
  lv_model :: string
  lv_latency :: rat
  lv_tokens :: token_counts
  lv_cost :: "rat option"
  lv_prompt :: string
  lv_response :: string

record span_detail =
  sd_name :: string
  sd_span_id :: string
  sd_span_type :: string
  sd_status :: string
  sd_duration :: rat
  sd_inputs :: json
  sd_outputs :: json
  sd_llm_calls :: "llm_call_view list"
  sd_error :: "(string \<times> string) option"
  sd_metadata :: json

record trace_item =
  ti_href :: string
  ti_name :: string
  ti_status :: string
  ti_span_count :: rat
  ti_duration :: rat
  ti_start_time :: timestamp
  ti_agent :: "string option"
  ti_framework :: "string option"

datatype html =
    Markup string
  | ErrorMessage string
  | Loading string
  | MetadataGrid metadata_view
  | SpanNodes "span_node list"
  | SpanRows "span_row list"
  | SpanDetail span_detail
  | TraceItems "trace_item list"

text \<open>
  The state of the trace detail page: the script's global \<^verbatim>\<open>currentTrace\<close> and the
  elements it writes to, named by their ids. The elements are taken to exist in the
  page. A \<^verbatim>\<open>textContent\<close> holds the value assigned to it.

  The page also holds the two things that the browser decides and the script does not:
  \<^verbatim>\<open>Date.parse\<close>, and the order in which its \<^verbatim>\<open>Array.prototype.sort\<close> leaves an
  array of spans when the comparator returns \<^verbatim>\<open>NaN\<close>. No function of the script
  changes them.
\<close>

record viewer =
  Date_parse :: "string \<Rightarrow> int option"
  sort_implementation :: "span list \<Rightarrow> span list"
  currentTrace :: "trace_body option"
  el_trace_title :: string
  el_trace_id :: "string option"
  el_trace_metadata :: html
  el_execution_graph :: html
  el_span_list :: html
  el_span_detail_content :: html
  el_span_modal_classList :: "string set"


section \<open>The trace detail viewer\<close>

text \<open>
  A function of the script is a state transformer that returns the exception it threw,
  if any, together with the state at that point: what was written before the throw
  stays written.
\<close>

type_synonym 'st action = "'st \<Rightarrow> exn option \<times> 'st"

definition and_then :: "'st action \<Rightarrow> 'st action \<Rightarrow> 'st action" where
  "and_then f g st =
     (case f st of
        (Some e, st') \<Rightarrow> (Some e, st')
      | (None, st') \<Rightarrow> g st')"

text \<open>
  The status element of the metadata grid: its class and its label, the two expressions
  \<^verbatim>\<open>currentTrace.spans.some(s => s.status === 'error') ? ... : ...\<close> of
  \<^verbatim>\<open>renderTraceMetadata\<close>.
\<close>

definition trace_status :: "span list \<Rightarrow> string" where
  "trace_status sp = (if some (\<lambda>s. span.status s = ''error'') sp then ''error'' else ''success'')"

definition trace_status_label :: "span list \<Rightarrow> string" where
  "trace_status_label sp = (if some (\<lambda>s. span.status s = ''error'') sp then ''Error'' else ''Success'')"

text \<open>\<^verbatim>\<open>currentTrace.metadata || {}\<close>.\<close>

definition metadata_or_empty :: "trace_metadata option \<Rightarrow> trace_metadata" where
  "metadata_or_empty m =
     (case m of
        None \<Rightarrow> \<lparr>total_duration_ms = None, span_count = None, agent_id = None,
                  framework = None, status = None\<rparr>
      | Some md \<Rightarrow> md)"

definition renderTraceMetadata :: "viewer action" where
  "renderTraceMetadata st =
     (case currentTrace st of
        None \<Rightarrow> (Some (TypeError ''Cannot read properties of null (reading 'name')''), st)
      | Some tr \<Rightarrow>
          let st1 = st\<lparr>el_trace_title := or_string (body_name tr) ''Trace''\<rparr>;
              st2 = st1\<lparr>el_trace_id := body_trace_id tr\<rparr>;
              metadata = metadata_or_empty (body_metadata tr)
          in (case body_spans tr of
                None \<Rightarrow> (Some (TypeError ''Cannot read properties of undefined (reading '0')''), st2)
              | Some sp \<Rightarrow>
                  let firstSpan = (case sp of [] \<Rightarrow> None | s # _ \<Rightarrow> Some s);
                      lastSpan = (if sp = [] then None else Some (last sp))
                  in (None, st2\<lparr>el_trace_metadata := MetadataGrid
                        \<lparr>mv_status_class = trace_status sp,
                         mv_status_label = trace_status_label sp,
                         mv_total_duration = or_zero (total_duration_ms metadata),
                         mv_span_count = or_zero (span_count metadata),
                         mv_start_time = (case firstSpan of None \<Rightarrow> NoTime | Some s \<Rightarrow> start_time s),
                         mv_agent = (if truthy (agent_id metadata) then agent_id metadata else None),
                         mv_framework = (if truthy (framework metadata) then framework metadata else None)\<rparr>\<rparr>)))"

definition renderSpanNode :: "span \<Rightarrow> nat \<Rightarrow> span_node" where
  "renderSpanNode s depth =
     (let indent = (if depth > 0 then ''span-indent'' else '''');
          statusClass = (if span.status s = ''error'' then ''error'' else ''success'');
          icon = (if span.status s = ''error'' then RedCircle else GreenCircle)
      in \<lparr>sn_status_class = statusClass,
          sn_indent = indent,
          sn_onclick = span_id s,
          sn_icon = icon,
          sn_name = span.name s,
          sn_span_type = span_type s,
          sn_duration = or_zero (duration_ms s),
          sn_llm_calls = (if length (llm_calls s) > 0 then Some (length (llm_calls s)) else None)\<rparr>)"

text \<open>
  \<^verbatim>\<open>renderExecutionGraph\<close> builds \<^verbatim>\<open>spanMap\<close> and \<^verbatim>\<open>rootSpans\<close> and uses neither.
  It sorts \<^verbatim>\<open>currentTrace.spans\<close> in place, so the global holds the sorted array
  afterwards.
\<close>

definition renderExecutionGraph :: "viewer action" where
  "renderExecutionGraph st =
     (case currentTrace st of
        None \<Rightarrow> (Some (TypeError ''Cannot read properties of null (reading 'spans')''), st)
      | Some (NotFound msg) \<Rightarrow>
          (Some (TypeError ''Cannot read properties of undefined (reading 'forEach')''), st)
      | Some (Trace t) \<Rightarrow>
          let spanMap = fold (\<lambda>s m. m(span_id s \<mapsto> s)) (spans t) Map.empty;
              rootSpans = filter (\<lambda>s. \<not> truthy (parent_span_id s)) (spans t);
              sorted_spans =
                array_sort (sort_implementation st) (by_start_time (Date_parse st)) (spans t)
          in (None, st\<lparr>currentTrace := Some (Trace (t\<lparr>spans := sorted_spans\<rparr>)),
                       el_execution_graph := SpanNodes (map (\<lambda>s. renderSpanNode s 0) sorted_spans)\<rparr>))"

text \<open>The callback that \<^verbatim>\<open>renderSpanList\<close> maps over the sorted spans.\<close>

definition renderSpanRow :: "span \<Rightarrow> span_row" where
  "renderSpanRow s =
     (let statusClass = (if span.status s = ''error'' then ''error'' else ''success'')
      in \<lparr>sr_status_class = statusClass,
          sr_onclick = span_id s,
          sr_name = span.name s,
          sr_span_type = span_type s,
          sr_duration = or_zero (duration_ms s),
          sr_start_time = start_time s\<rparr>)"

definition renderSpanList :: "viewer action" where
  "renderSpanList st =
     (case currentTrace st of
        None \<Rightarrow> (Some (TypeError ''Cannot read properties of null (reading 'spans')''), st)
      | Some (NotFound msg) \<Rightarrow>
          (Some (TypeError ''Cannot read properties of undefined (reading 'sort')''), st)
      | Some (Trace t) \<Rightarrow>
          let sorted_spans =
                array_sort (sort_implementation st) (by_start_time (Date_parse st)) (spans t)
          in (None, st\<lparr>currentTrace := Some (Trace (t\<lparr>spans := sorted_spans\<rparr>)),
                       el_span_list := SpanRows (map renderSpanRow sorted_spans)\<rparr>))"

text \<open>The body of the \<^verbatim>\<open>try\<close> block of \<^verbatim>\<open>loadTrace\<close>.\<close>

definition loadTrace_try :: "trace_body fetched \<Rightarrow> viewer action" where
  "loadTrace_try r st =
     (case r of
        Rejected m \<Rightarrow> (Some (FetchError m), st)
      | Resolved (NotJson m) \<Rightarrow> (Some (SyntaxError m), st)
      | Resolved (Json body) \<Rightarrow>
          let st1 = st\<lparr>currentTrace := Some body\<rparr>
          in if truthy (body_error body)
             then (None, st1\<lparr>el_trace_metadata := ErrorMessage (interpolate (body_error body))\<rparr>)
             else and_then renderTraceMetadata (and_then renderExecutionGraph renderSpanList) st1)"

definition loadTrace :: "trace_body fetched \<Rightarrow> viewer action" where
  "loadTrace r st =
     (case loadTrace_try r st of
        (None, st') \<Rightarrow> (None, st')
      | (Some e, st') \<Rightarrow>
          (None, st'\<lparr>el_trace_metadata := ErrorMessage (''Error loading trace: '' @ message e)\<rparr>))"

text \<open>The callback that \<^verbatim>\<open>showSpanDetail\<close> maps over the LLM calls of the span.\<close>

definition renderLlmCalls :: "llm_call list \<Rightarrow> llm_call_view list" where
  "renderLlmCalls calls =
     map (\<lambda>(idx, call).
            \<lparr>lv_number = idx + 1,
             lv_model = model call,
             lv_latency = latency_ms call,
             lv_tokens = tokens call,
             lv_cost = (if truthy_num (cost call) then cost call else None),
             lv_prompt = prompt call,
             lv_response = response call\<rparr>)
         (enumerate 0 calls)"

definition showSpanDetail :: "string \<Rightarrow> viewer action" where
  "showSpanDetail spanId st =
     (case currentTrace st of
        None \<Rightarrow> (Some (TypeError ''Cannot read properties of null (reading 'spans')''), st)
      | Some tr \<Rightarrow>
          (case body_spans tr of
             None \<Rightarrow> (Some (TypeError ''Cannot read properties of undefined (reading 'find')''), st)
           | Some sp \<Rightarrow>
               (case find_first (\<lambda>s. span_id s = spanId) sp of
                  None \<Rightarrow> (None, st)
                | Some s \<Rightarrow>
                    let llmCallsHtml = (if length (llm_calls s) > 0 then renderLlmCalls (llm_calls s) else [])
                    in (None, st\<lparr>el_span_detail_content := SpanDetail
                          \<lparr>sd_name = span.name s,
                           sd_span_id = span_id s,
                           sd_span_type = span_type s,
                           sd_status = span.status s,
                           sd_duration = or_zero (duration_ms s),
                           sd_inputs = inputs s,
                           sd_outputs = outputs s,
                           sd_llm_calls = llmCallsHtml,
                           sd_error = (if truthy (error s) then Some (interpolate (error_type s), interpolate (error s)) else None),
                           sd_metadata = span.metadata s\<rparr>,
                         el_span_modal_classList := insert ''active'' (el_span_modal_classList st)\<rparr>))))"

text \<open>The two handlers that close the modal.\<close>

definition close_onclick :: "viewer \<Rightarrow> viewer" where
  "close_onclick st = st\<lparr>el_span_modal_classList := el_span_modal_classList st - {''active''}\<rparr>"

definition window_onclick :: "bool \<Rightarrow> viewer \<Rightarrow> viewer" where
  "window_onclick target_is_modal st =
     (if target_is_modal
      then st\<lparr>el_span_modal_classList := el_span_modal_classList st - {''active''}\<rparr>
      else st)"


section \<open>The trace list page\<close>

text \<open>
  An element of the body of \<^verbatim>\<open>GET /api/traces\<close>: the summary projection of a trace.
\<close>

record summary =
  trace_id :: string
  name :: "string option"
  status :: string
  span_count :: "rat option"
  total_duration_ms :: "rat option"
  start_time :: timestamp
  agent_id :: "string option"
  framework :: "string option"

text \<open>
  The body of \<^verbatim>\<open>GET /api/traces\<close>: the array of summaries, or an object with an
  \<^verbatim>\<open>error\<close> property, which has neither \<^verbatim>\<open>length\<close> nor \<^verbatim>\<open>filter\<close>.
\<close>

datatype list_body =
    TraceArray "summary list"
  | ErrorObject string

text \<open>What the script assigns to the \<^verbatim>\<open>textContent\<close> of a statistic.\<close>

datatype stat =
    Static string
  | Number rat
  | Percent rat
  | Millis rat

record dashboard =
  el_trace_list :: html
  el_total_traces :: stat
  el_success_rate :: stat
  el_avg_duration :: stat
  el_total_spans :: stat

text \<open>The callback that \<^verbatim>\<open>loadTraces\<close> maps over the summaries.\<close>

definition renderTraceItem :: "summary \<Rightarrow> trace_item" where
  "renderTraceItem t =
     \<lparr>ti_href = ''/trace/'' @ summary.trace_id t,
      ti_name = or_string (summary.name t) ''Unnamed trace'',
      ti_status = summary.status t,
      ti_span_count = or_zero (summary.span_count t),
      ti_duration = or_zero (summary.total_duration_ms t),
      ti_start_time = summary.start_time t,
      ti_agent = (if truthy (summary.agent_id t) then summary.agent_id t else None),
      ti_framework = (if truthy (summary.framework t) then summary.framework t else None)\<rparr>"

text \<open>The body of the \<^verbatim>\<open>try\<close> block of \<^verbatim>\<open>loadTraces\<close>.\<close>

definition loadTraces_try :: "list_body fetched \<Rightarrow> dashboard action" where
  "loadTraces_try r st =
     (case r of
        Rejected m \<Rightarrow> (Some (FetchError m), st)
      | Resolved (NotJson m) \<Rightarrow> (Some (SyntaxError m), st)
      | Resolved (Json (ErrorObject msg)) \<Rightarrow>
          (Some (TypeError ''traces.filter is not a function''), st)
      | Resolved (Json (TraceArray traces)) \<Rightarrow>
          if length traces = 0
          then (None, st\<lparr>el_trace_list := Loading ''No traces yet. Run an example to generate traces!''\<rparr>)
          else
            let totalTraces = rat_of_nat (length traces);
                successfulTraces = rat_of_nat (length (filter (\<lambda>t. summary.status t = ''success'') traces));
                successRate = successfulTraces / totalTraces * 100;
                avgDuration = foldl (\<lambda>sum t. sum + or_zero (summary.total_duration_ms t)) 0 traces / totalTraces;
                totalSpans = foldl (\<lambda>sum t. sum + or_zero (summary.span_count t)) 0 traces
            in (None, st\<lparr>el_total_traces := Number totalTraces,
                         el_success_rate := Percent successRate,
                         el_avg_duration := Millis avgDuration,
                         el_total_spans := Number totalSpans,
                         el_trace_list := TraceItems (map renderTraceItem traces)\<rparr>))"

definition loadTraces :: "list_body fetched \<Rightarrow> dashboard action" where
  "loadTraces r st =
     (case loadTraces_try r st of
        (None, st') \<Rightarrow> (None, st')
      | (Some e, st') \<Rightarrow>
          (None, st'\<lparr>el_trace_list := ErrorMessage (''Error loading traces: '' @ message e)\<rparr>))"

text \<open>
  The responses by which the Query Service signals absence or failure: the fetch
  rejects, the body is not valid JSON, or the body is the object that carries an
  \<^verbatim>\<open>error\<close> field.
\<close>

fun trace_failure :: "trace_body fetched \<Rightarrow> bool" where
  "trace_failure (Rejected m) = True"
| "trace_failure (Resolved (NotJson m)) = True"
| "trace_failure (Resolved (Json (NotFound msg))) = True"
| "trace_failure (Resolved (Json (Trace t))) = False"

fun list_failure :: "list_body fetched \<Rightarrow> bool" where
  "list_failure (Rejected m) = True"
| "list_failure (Resolved (NotJson m)) = True"
| "list_failure (Resolved (Json (ErrorObject msg))) = True"
| "list_failure (Resolved (Json (TraceArray traces))) = False"

fun is_error_message :: "html \<Rightarrow> bool" where
  "is_error_message (ErrorMessage m) = True"
| "is_error_message h = False"

text \<open>
  The overall status of a trace in the words of the specification: error if any span
  errored, else success.
\<close>

definition overall_status :: "span list \<Rightarrow> string" where
  "overall_status sp = (if (\<exists>s \<in> set sp. span.status s = ''error'') then ''error'' else ''success'')"


section \<open>The capture-and-storage engine\<close>

text \<open>
  The scripts are the only code among the sources. The Storage Backend, the Query
  Service and the Tracer that they imply are described by the specification only; the
  definitions of this section follow its sections 3, 4.1, 4.3 and 4.4.
\<close>

text \<open>
  Modelled from the spec: the state of the Storage Backend, which is missing from the
  sources: the full trace records keyed by \<^verbatim>\<open>trace_id\<close>, and the index of summary
  projections (section 4.3).
\<close>

record store =
  records :: "string \<Rightarrow> trace option"
  index :: "summary list"

text \<open>Modelled from the spec: the Storage Backend before any \<^verbatim>\<open>save\<close> (missing from the sources).\<close>

definition empty_store :: store where
  "empty_store = \<lparr>records = Map.empty, index = []\<rparr>"

text \<open>
  Modelled from the spec: the summary projection (trace_id, name, status, span_count,
  total_duration_ms, start_time, agent_id, framework) that \<^verbatim>\<open>save\<close> writes to the
  index; the code that computes it is missing from the sources. The status is the overall
  status of section 3, the start time the \<^verbatim>\<open>start_time\<close> of the root span.
\<close>

definition summary_of :: "trace \<Rightarrow> summary" where
  "summary_of t =
     (let md = metadata_or_empty (trace.metadata t)
      in \<lparr>summary.trace_id = trace.trace_id t,
          summary.name = trace.name t,
          summary.status = overall_status (spans t),
          summary.span_count = trace_metadata.span_count md,
          summary.total_duration_ms = trace_metadata.total_duration_ms md,
          summary.start_time =
            (case find_first (\<lambda>s. parent_span_id s = None) (spans t) of
               None \<Rightarrow> NoTime
             | Some r \<Rightarrow> span.start_time r),
          summary.agent_id = trace_metadata.agent_id md,
          summary.framework = trace_metadata.framework md\<rparr>)"

text \<open>
  Modelled from the spec: the update of the index by \<^verbatim>\<open>save\<close> (missing from the
  sources): the entry of the same \<^verbatim>\<open>trace_id\<close> is replaced (last write wins), a new
  entry is appended.
\<close>

fun index_put :: "summary \<Rightarrow> summary list \<Rightarrow> summary list" where
  "index_put e [] = [e]"
| "index_put e (x # xs) =
     (if summary.trace_id x = summary.trace_id e then e # xs else x # index_put e xs)"

text \<open>
  Modelled from the spec: \<^verbatim>\<open>save(trace)\<close> of the Storage Backend (missing from the
  sources): writes the full record keyed by \<^verbatim>\<open>trace_id\<close> first, then updates the index
  with the summary projection.
\<close>

definition save :: "trace \<Rightarrow> store \<Rightarrow> store" where
  "save t st =
     (let st1 = st\<lparr>records := (records st)(trace.trace_id t \<mapsto> t)\<rparr>
      in st1\<lparr>index := index_put (summary_of t) (index st1)\<rparr>)"

text \<open>
  Modelled from the spec: \<^verbatim>\<open>load(trace_id) -> trace | not_found\<close> of the Storage
  Backend (missing from the sources); \<open>None\<close> is \<^verbatim>\<open>not_found\<close>.
\<close>

definition load :: "string \<Rightarrow> store \<Rightarrow> trace option" where
  "load tid st = records st tid"

text \<open>
  Modelled from the spec: \<^verbatim>\<open>list()\<close> of the Storage Backend (missing from the
  sources): all known traces as summary projections, read from the index.
\<close>

definition list_store :: "store \<Rightarrow> summary list" where
  "list_store st = index st"

text \<open>
  Modelled from the spec: \<^verbatim>\<open>list_traces()\<close> of the Query Service (missing from the
  sources), a read-only facade over the Storage Backend; it returns the store it leaves
  behind together with the summaries.
\<close>

definition list_traces :: "store \<Rightarrow> summary list \<times> store" where
  "list_traces st = (list_store st, st)"

text \<open>
  Modelled from the spec: \<^verbatim>\<open>get_trace(trace_id)\<close> of the Query Service (missing from
  the sources): the full record or the not-found error body. The text of the not-found
  message is not specified and is a parameter.
\<close>

definition get_trace :: "string \<Rightarrow> string \<Rightarrow> store \<Rightarrow> trace_body \<times> store" where
  "get_trace not_found_message tid st =
     (case load tid st of
        None \<Rightarrow> (NotFound not_found_message, st)
      | Some t \<Rightarrow> (Trace t, st))"

text \<open>
  Modelled from the spec: the body of \<^verbatim>\<open>GET /api/traces\<close>, the sequence of trace
  summaries that \<^verbatim>\<open>list_traces()\<close> returns (the handler is missing from the sources).
\<close>

definition api_traces :: "store \<Rightarrow> list_body" where
  "api_traces st = TraceArray (fst (list_traces st))"

text \<open>
  Modelled from the spec: the operations that reach the Storage Backend (all missing from
  the sources): \<^verbatim>\<open>save\<close>, and the two reads of the Query Service.
\<close>

datatype operation =
    Save trace
  | ListTraces
  | GetTrace string string

text \<open>Modelled from the spec: whether an operation is a \<^verbatim>\<open>save\<close> (missing from the sources).\<close>

fun is_save :: "operation \<Rightarrow> bool" where
  "is_save (Save t) = True"
| "is_save ListTraces = False"
| "is_save (GetTrace m tid) = False"

text \<open>
  Modelled from the spec: the store that an operation leaves behind (the operations are
  missing from the sources).
\<close>

fun perform :: "operation \<Rightarrow> store \<Rightarrow> store" where
  "perform (Save t) st = save t st"
| "perform ListTraces st = snd (list_traces st)"
| "perform (GetTrace m tid) st = snd (get_trace m tid st)"

text \<open>
  Modelled from the spec: a sequence of operations on the store, one after the other (the
  operations are missing from the sources).
\<close>

definition perform_all :: "operation list \<Rightarrow> store \<Rightarrow> store" where
  "perform_all ops st = foldl (\<lambda>s op. perform op s) st ops"


text \<open>
  Modelled from the spec: the state of the Tracer for one execution context (section 4.1),
  missing from the sources: the stack of open spans, innermost first, the closed spans
  of the active trace, the identifier of the active trace, the Storage Backend that
  finalized traces are handed to, and the diagnostics surfaced so far.
\<close>

record tracer =
  stack :: "span list"
  finished :: "span list"
  active_trace :: "string option"
  backend :: store
  diagnostics :: "string list"













text \<open>Modelled from the spec: \<^verbatim>\<open>current_span()\<close> (missing from the sources).\<close>

definition current_span :: "tracer \<Rightarrow> string option" where
  "current_span tr = (case stack tr of [] \<Rightarrow> None | s # _ \<Rightarrow> Some (span_id s))"









section \<open>Reading the page, and the invariant of the Tracer\<close>

text \<open>The label that the metadata grid prints for a status class.\<close>

definition status_label :: "string \<Rightarrow> string" where
  "status_label c = (if c = ''error'' then ''Error'' else ''Success'')"

text \<open>The status that a rendered metadata grid displays: its class and its label.\<close>

fun shown_status :: "html \<Rightarrow> (string \<times> string) option" where
  "shown_status (MetadataGrid v) = Some (mv_status_class v, mv_status_label v)"
| "shown_status h = None"

text \<open>
  Every span of the array has a valid date as its \<^verbatim>\<open>start_time\<close>; and the order
  in which the views are to show two such spans: by the time values of their dates.
\<close>

definition valid_dates :: "(string \<Rightarrow> int option) \<Rightarrow> span list \<Rightarrow> bool" where
  "valid_dates parse xs = (\<forall>s \<in> set xs. date_value parse (span.start_time s) \<noteq> None)"

definition not_after :: "(string \<Rightarrow> int option) \<Rightarrow> span \<Rightarrow> span \<Rightarrow> bool" where
  "not_after parse a b =
     (case (date_value parse (span.start_time a), date_value parse (span.start_time b)) of
        (Some x, Some y) \<Rightarrow> x \<le> y
      | _ \<Rightarrow> False)"




section \<open>Sample data\<close>

definition sample_span :: "string \<Rightarrow> rat \<Rightarrow> string \<Rightarrow> span" where
  "sample_span sid t stat =
     \<lparr>span_id = sid, parent_span_id = None, span.name = ''classify_intent'',
      span_type = ''agent_decision'', span.start_time = TimeNumber t,
      end_time = TimeNumber (t + 50), duration_ms = Some 50, span.status = stat,
      inputs = JObj [], outputs = JObj [], llm_calls = [], error = None, error_type = None,
      span.metadata = JObj []\<rparr>"

definition sample_trace :: trace where
  "sample_trace =
     \<lparr>trace.trace_id = ''tr_abc123'', trace.name = Some ''Customer Service Flow'',
      trace.metadata = Some
        \<lparr>trace_metadata.total_duration_ms = Some 150, trace_metadata.span_count = Some 2,
         trace_metadata.agent_id = None, trace_metadata.framework = Some ''langchain'',
         trace_metadata.status = Some ''success''\<rparr>,
      spans = [sample_span ''s2'' 200 ''error'', sample_span ''s1'' 100 ''success'']\<rparr>"

text \<open>
  A trace whose second span started earlier than its first, within the same
  millisecond.
\<close>

definition same_millisecond_trace :: trace where
  "same_millisecond_trace =
     \<lparr>trace.trace_id = ''tr_ms'', trace.name = None, trace.metadata = None,
      spans = [sample_span ''later'' (1009 / 10) ''success'',
               sample_span ''earlier'' (1001 / 10) ''success'']\<rparr>"

text \<open>A trace whose second span has a \<^verbatim>\<open>start_time\<close> beyond the range of a date.\<close>

definition out_of_range_trace :: trace where
  "out_of_range_trace =
     \<lparr>trace.trace_id = ''tr_range'', trace.name = None, trace.metadata = None,
      spans = [sample_span ''two'' 2 ''success'',
               sample_span ''big'' 9000000000000000 ''success'',
               sample_span ''one'' 1 ''success'']\<rparr>"

text \<open>
  A page as the browser first shows it. Its \<^verbatim>\<open>Date.parse\<close> accepts no string, and
  its sort leaves an array as it is when the comparator returns \<^verbatim>\<open>NaN\<close>.
\<close>

definition blank_viewer :: viewer where
  "blank_viewer =
     \<lparr>Date_parse = (\<lambda>str. None), sort_implementation = (\<lambda>xs. xs),
      currentTrace = None, el_trace_title = ''Trace'', el_trace_id = None,
      el_trace_metadata = Markup ''Loading...'', el_execution_graph = Markup [],
      el_span_list = Markup [], el_span_detail_content = Markup [],
      el_span_modal_classList = {''modal''}\<rparr>"

definition blank_dashboard :: dashboard where
  "blank_dashboard =
     \<lparr>el_trace_list = Markup ''Loading...'', el_total_traces = Static ''-'',
      el_success_rate = Static ''-'', el_avg_duration = Static ''-'',
      el_total_spans = Static ''-''\<rparr>"




section \<open>Properties of the JavaScript operators\<close>

lemma some_iff: "some p xs = (\<exists>x \<in> set xs. p x)"
  by (induction xs) auto

lemma find_first_None: "find_first p xs = None \<longleftrightarrow> (\<forall>x \<in> set xs. \<not> p x)"
  by (induction xs) auto

lemma find_first_Some: "find_first p xs = Some x \<Longrightarrow> x \<in> set xs \<and> p x"
  by (induction xs) (auto split: if_splits)

lemma mset_sort_insert: "mset (sort_insert cmp x ys) = add_mset x (mset ys)"
  by (induction ys) auto

lemma set_sort_insert: "set (sort_insert cmp x ys) = insert x (set ys)"
  by (induction ys) auto

lemma mset_foldl_sort_insert:
  "mset (foldl (\<lambda>acc x. sort_insert cmp x acc) acc xs) = mset acc + mset xs"
  by (induction xs arbitrary: acc) (auto simp: mset_sort_insert)

lemma never_NaN_by_start_time: "never_NaN (by_start_time parse) xs = valid_dates parse xs"
  by (auto simp: never_NaN_def valid_dates_def by_start_time_def list_all_iff split: option.splits)

lemma array_sort_valid:
  "valid_dates parse xs \<Longrightarrow>
   array_sort impl (by_start_time parse) xs =
     foldl (\<lambda>acc x. sort_insert (by_start_time parse) x acc) [] xs"
  by (simp add: array_sort_def never_NaN_by_start_time)

lemma mset_array_sort:
  "valid_dates parse xs \<Longrightarrow> mset (array_sort impl (by_start_time parse) xs) = mset xs"
  by (simp add: array_sort_valid mset_foldl_sort_insert)

lemma valid_dates_mset: "mset ys = mset xs \<Longrightarrow> valid_dates parse ys = valid_dates parse xs"
  by (auto simp: valid_dates_def dest: mset_eq_setD)

lemma valid_dates_array_sort:
  "valid_dates parse xs \<Longrightarrow> valid_dates parse (array_sort impl (by_start_time parse) xs)"
  using valid_dates_mset [OF mset_array_sort] by blast

lemma sorted_sort_insert:
  "valid_dates parse (x # ys) \<Longrightarrow> sorted_wrt (not_after parse) ys \<Longrightarrow>
   sorted_wrt (not_after parse) (sort_insert (by_start_time parse) x ys)"
proof (induction ys)
  case Nil
  then show ?case by simp
next
  case (Cons y ys)
  from Cons.prems(1) obtain a b where a: "date_value parse (span.start_time x) = Some a"
    and b: "date_value parse (span.start_time y) = Some b"
    by (auto simp: valid_dates_def)
  from a b have cmp: "by_start_time parse x y = Some (a - b)"
    by (simp add: by_start_time_def)
  show ?case
  proof (cases "a < b")
    case True
    have "not_after parse x z" if "z \<in> set (y # ys)" for z
    proof -
      from that Cons.prems(2) have "z = y \<or> not_after parse y z" by auto
      with a b True show ?thesis
        by (auto simp: not_after_def split: option.splits)
    qed
    with cmp True Cons.prems(2) show ?thesis
      by simp
  next
    case False
    from Cons.prems have "sorted_wrt (not_after parse) (sort_insert (by_start_time parse) x ys)"
      by (intro Cons.IH) (auto simp: valid_dates_def)
    moreover from a b False have "not_after parse y x"
      by (simp add: not_after_def)
    ultimately show ?thesis
      using cmp False Cons.prems(2)
      by (auto simp: set_sort_insert)
  qed
qed

lemma sorted_foldl_sort_insert:
  "valid_dates parse (acc @ xs) \<Longrightarrow> sorted_wrt (not_after parse) acc \<Longrightarrow>
   sorted_wrt (not_after parse) (foldl (\<lambda>acc x. sort_insert (by_start_time parse) x acc) acc xs)"
proof (induction xs arbitrary: acc)
  case Nil
  then show ?case by simp
next
  case (Cons x xs)
  from Cons.prems have "sorted_wrt (not_after parse) (sort_insert (by_start_time parse) x acc)"
    by (intro sorted_sort_insert) (auto simp: valid_dates_def)
  moreover from Cons.prems(1)
  have "valid_dates parse (sort_insert (by_start_time parse) x acc @ xs)"
    by (auto simp: valid_dates_def set_sort_insert)
  ultimately show ?case using Cons.IH by simp
qed

lemma sorted_array_sort:
  "valid_dates parse xs \<Longrightarrow>
   sorted_wrt (not_after parse) (array_sort impl (by_start_time parse) xs)"
  using sorted_foldl_sort_insert [of parse "[]" xs] by (simp add: array_sort_valid)

lemma not_after_not_less:
  "not_after parse y x \<Longrightarrow> \<not> (case by_start_time parse x y of Some d \<Rightarrow> d < 0 | None \<Rightarrow> False)"
  by (auto simp: by_start_time_def not_after_def split: option.splits)

lemma sort_insert_last:
  "\<forall>y \<in> set ys. not_after parse y x \<Longrightarrow> sort_insert (by_start_time parse) x ys = ys @ [x]"
  by (induction ys) (simp_all add: not_after_not_less)

lemma foldl_sort_insert_sorted:
  "sorted_wrt (not_after parse) (acc @ xs) \<Longrightarrow>
   foldl (\<lambda>acc x. sort_insert (by_start_time parse) x acc) acc xs = acc @ xs"
proof (induction xs arbitrary: acc)
  case Nil
  then show ?case by simp
next
  case (Cons x xs)
  from Cons.prems have le: "\<forall>y \<in> set acc. not_after parse y x"
    by (auto simp: sorted_wrt_append)
  from Cons.prems have "sorted_wrt (not_after parse) ((acc @ [x]) @ xs)"
    by simp
  then have "foldl (\<lambda>acc x. sort_insert (by_start_time parse) x acc) (acc @ [x]) xs = (acc @ [x]) @ xs"
    by (rule Cons.IH)
  with le show ?case by (simp add: sort_insert_last)
qed

lemma array_sort_idem:
  assumes "valid_dates parse xs"
  shows "array_sort impl (by_start_time parse) (array_sort impl (by_start_time parse) xs) =
         array_sort impl (by_start_time parse) xs"
proof -
  let ?o = "array_sort impl (by_start_time parse) xs"
  from assms have "valid_dates parse ?o" by (rule valid_dates_array_sort)
  then have "array_sort impl (by_start_time parse) ?o =
    foldl (\<lambda>acc x. sort_insert (by_start_time parse) x acc) [] ?o"
    by (rule array_sort_valid)
  also from assms have "\<dots> = ?o"
    using foldl_sort_insert_sorted [of parse "[]" ?o] by (simp add: sorted_array_sort)
  finally show ?thesis .
qed

lemma array_sort_order:
  assumes "valid_dates parse xs"
    and "i < length (array_sort impl (by_start_time parse) xs)"
    and "j < length (array_sort impl (by_start_time parse) xs)"
    and "date_value parse (span.start_time (array_sort impl (by_start_time parse) xs ! i)) = Some x"
    and "date_value parse (span.start_time (array_sort impl (by_start_time parse) xs ! j)) = Some y"
    and "x < y"
  shows "i < j"
proof (rule ccontr)
  assume "\<not> i < j"
  then have "j < i \<or> j = i" by arith
  then show False
  proof
    assume "j < i"
    with sorted_array_sort [OF assms(1), of impl] assms(2)
    have "not_after parse (array_sort impl (by_start_time parse) xs ! j)
                          (array_sort impl (by_start_time parse) xs ! i)"
      by (simp add: sorted_wrt_iff_nth_less)
    with assms(4,5,6) show False by (simp add: not_after_def)
  next
    assume "j = i"
    with assms(4,5,6) show False by simp
  qed
qed


section \<open>What the load functions leave on the page\<close>

lemma trace_status_overall: "trace_status sp = overall_status sp"
  by (simp add: trace_status_def overall_status_def some_iff)

lemma trace_status_label_overall: "trace_status_label sp = status_label (overall_status sp)"
  by (simp add: trace_status_label_def overall_status_def status_label_def some_iff)

text \<open>
  A full trace: the metadata grid is written first, then the graph from the sorted spans,
  then the list from the spans sorted once more.
\<close>

lemma loadTrace_Trace:
  "loadTrace (Resolved (Json (Trace t))) st =
     (None, st\<lparr>currentTrace := Some (Trace (t\<lparr>spans :=
                 array_sort (sort_implementation st) (by_start_time (Date_parse st))
                   (array_sort (sort_implementation st) (by_start_time (Date_parse st)) (spans t))\<rparr>)),
               el_trace_title := or_string (trace.name t) ''Trace'',
               el_trace_id := Some (trace.trace_id t),
               el_trace_metadata := MetadataGrid
                 \<lparr>mv_status_class = trace_status (spans t),
                  mv_status_label = trace_status_label (spans t),
                  mv_total_duration =
                    or_zero (trace_metadata.total_duration_ms (metadata_or_empty (trace.metadata t))),
                  mv_span_count =
                    or_zero (trace_metadata.span_count (metadata_or_empty (trace.metadata t))),
                  mv_start_time =
                    (case (case spans t of [] \<Rightarrow> None | s # _ \<Rightarrow> Some s) of
                       None \<Rightarrow> NoTime | Some s \<Rightarrow> span.start_time s),
                  mv_agent =
                    (if truthy (trace_metadata.agent_id (metadata_or_empty (trace.metadata t)))
                     then trace_metadata.agent_id (metadata_or_empty (trace.metadata t)) else None),
                  mv_framework =
                    (if truthy (trace_metadata.framework (metadata_or_empty (trace.metadata t)))
                     then trace_metadata.framework (metadata_or_empty (trace.metadata t)) else None)\<rparr>,
               el_execution_graph :=
                 SpanNodes (map (\<lambda>s. renderSpanNode s 0)
                   (array_sort (sort_implementation st) (by_start_time (Date_parse st)) (spans t))),
               el_span_list :=
                 SpanRows (map renderSpanRow
                   (array_sort (sort_implementation st) (by_start_time (Date_parse st))
                     (array_sort (sort_implementation st) (by_start_time (Date_parse st)) (spans t))))\<rparr>)"
  by (simp add: loadTrace_def loadTrace_try_def and_then_def renderTraceMetadata_def
      renderExecutionGraph_def renderSpanList_def Let_def)

lemma loadTrace_Rejected:
  "loadTrace (Rejected m) st =
     (None, st\<lparr>el_trace_metadata := ErrorMessage (''Error loading trace: '' @ m)\<rparr>)"
  by (simp add: loadTrace_def loadTrace_try_def)

lemma loadTrace_NotJson:
  "loadTrace (Resolved (NotJson m)) st =
     (None, st\<lparr>el_trace_metadata := ErrorMessage (''Error loading trace: '' @ m)\<rparr>)"
  by (simp add: loadTrace_def loadTrace_try_def)

text \<open>
  The not-found body: a message that is truthy is shown as it is; with an empty message
  the script goes on to render, fails on the missing \<^verbatim>\<open>spans\<close> and shows the
  message of that exception.
\<close>

lemma loadTrace_NotFound:
  "loadTrace (Resolved (Json (NotFound msg))) st =
     (if msg \<noteq> []
      then (None, st\<lparr>currentTrace := Some (NotFound msg), el_trace_metadata := ErrorMessage msg\<rparr>)
      else (None, st\<lparr>currentTrace := Some (NotFound msg), el_trace_title := ''Trace'',
                       el_trace_id := None,
                       el_trace_metadata := ErrorMessage
                         (''Error loading trace: '' @
                          ''Cannot read properties of undefined (reading '0')'')\<rparr>))"
  by (simp add: loadTrace_def loadTrace_try_def and_then_def renderTraceMetadata_def Let_def)

lemma loadTraces_Rejected:
  "loadTraces (Rejected m) d =
     (None, d\<lparr>el_trace_list := ErrorMessage (''Error loading traces: '' @ m)\<rparr>)"
  by (simp add: loadTraces_def loadTraces_try_def)

lemma loadTraces_NotJson:
  "loadTraces (Resolved (NotJson m)) d =
     (None, d\<lparr>el_trace_list := ErrorMessage (''Error loading traces: '' @ m)\<rparr>)"
  by (simp add: loadTraces_def loadTraces_try_def)

lemma loadTraces_ErrorObject:
  "loadTraces (Resolved (Json (ErrorObject msg))) d =
     (None, d\<lparr>el_trace_list := ErrorMessage
        (''Error loading traces: '' @ ''traces.filter is not a function'')\<rparr>)"
  by (simp add: loadTraces_def loadTraces_try_def)

lemma loadTraces_empty:
  "loadTraces (Resolved (Json (TraceArray []))) d =
     (None, d\<lparr>el_trace_list := Loading ''No traces yet. Run an example to generate traces!''\<rparr>)"
  by (simp add: loadTraces_def loadTraces_try_def)


section \<open>Error states\<close>

text \<open>No exception leaves a load function, whatever the response.\<close>

lemma loadTrace_catches: "fst (loadTrace r st) = None"
  by (simp add: loadTrace_def split: prod.splits option.splits)

lemma loadTraces_catches: "fst (loadTraces q d) = None"
  by (simp add: loadTraces_def split: prod.splits option.splits)

text \<open>
  Claim C1. For every response by which the Query Service signals absence or failure
  (the fetch rejects, the response is not valid JSON, or the body carries an
  \<^verbatim>\<open>error\<close> field, as returned for an unknown trace_id), the trace detail viewer
  and the trace list page write an error message element into the page, and no
  exception leaves the load function.
\<close>

theorem failure_renders_error_message:
  "(trace_failure r \<longrightarrow>
      fst (loadTrace r st) = None \<and>
      is_error_message (el_trace_metadata (snd (loadTrace r st)))) \<and>
   (list_failure q \<longrightarrow>
      fst (loadTraces q d) = None \<and>
      is_error_message (el_trace_list (snd (loadTraces q d))))"
proof (intro conjI impI)
  show "fst (loadTrace r st) = None" by (rule loadTrace_catches)
  show "fst (loadTraces q d) = None" by (rule loadTraces_catches)
next
  assume "trace_failure r"
  then show "is_error_message (el_trace_metadata (snd (loadTrace r st)))"
    by (cases r rule: trace_failure.cases)
       (simp_all add: loadTrace_Rejected loadTrace_NotJson loadTrace_NotFound)
next
  assume "list_failure q"
  then show "is_error_message (el_trace_list (snd (loadTraces q d)))"
    by (cases q rule: list_failure.cases)
       (simp_all add: loadTraces_Rejected loadTraces_NotJson loadTraces_ErrorObject)
qed

theorem failure_renders_error_message_witness:
  "trace_failure (Resolved (Json (NotFound ''Trace not found''))) \<and>
   list_failure (Rejected ''Failed to fetch'') \<and>
   fst (loadTrace (Resolved (Json (NotFound ''Trace not found''))) blank_viewer) = None \<and>
   is_error_message (el_trace_metadata
     (snd (loadTrace (Resolved (Json (NotFound ''Trace not found''))) blank_viewer))) \<and>
   fst (loadTraces (Rejected ''Failed to fetch'') blank_dashboard) = None \<and>
   is_error_message (el_trace_list (snd (loadTraces (Rejected ''Failed to fetch'') blank_dashboard)))"
  using failure_renders_error_message
    [of "Resolved (Json (NotFound ''Trace not found''))" blank_viewer
        "Rejected ''Failed to fetch''" blank_dashboard]
  by simp


section \<open>The status of a trace\<close>

text \<open>
  Claim C2. The status that the trace detail page displays for a trace is ``error'' if at
  least one of its spans has status ``error'' and ``success'' otherwise. It is a function
  of the spans alone: two traces with the same spans are shown with the same status,
  whatever aggregate status, other metadata or page state comes with them.
\<close>

theorem trace_status_is_function_of_spans:
  "shown_status (el_trace_metadata (snd (loadTrace (Resolved (Json (Trace t))) st))) =
     Some (overall_status (spans t), status_label (overall_status (spans t))) \<and>
   (spans t' = spans t \<longrightarrow>
      shown_status (el_trace_metadata (snd (loadTrace (Resolved (Json (Trace t'))) st'))) =
      shown_status (el_trace_metadata (snd (loadTrace (Resolved (Json (Trace t))) st))))"
  by (simp add: loadTrace_Trace trace_status_overall trace_status_label_overall)

theorem trace_status_is_function_of_spans_witness:
  "spans (sample_trace\<lparr>trace.metadata := None\<rparr>) = spans sample_trace \<and>
   shown_status (el_trace_metadata
     (snd (loadTrace (Resolved (Json (Trace sample_trace))) blank_viewer))) =
     Some (''error'', ''Error'') \<and>
   shown_status (el_trace_metadata
     (snd (loadTrace (Resolved (Json (Trace (sample_trace\<lparr>trace.metadata := None\<rparr>)))) blank_viewer))) =
     Some (''error'', ''Error'')"
  using trace_status_is_function_of_spans
    [of sample_trace blank_viewer "sample_trace\<lparr>trace.metadata := None\<rparr>" blank_viewer]
  by (simp add: overall_status_def status_label_def sample_trace_def sample_span_def)


section \<open>The empty store\<close>

text \<open>
  Claim C3. On an empty store \<^verbatim>\<open>list_traces()\<close> yields the empty sequence, and
  \<^verbatim>\<open>GET /api/traces\<close> the empty array, not an error. On the empty array the trace list
  page writes the ``No traces yet'' placeholder and returns: the statistics are left as
  they were and no trace item is rendered.
\<close>

theorem empty_store_placeholder:
  "fst (list_traces empty_store) = [] \<and>
   api_traces empty_store = TraceArray [] \<and>
   loadTraces (Resolved (Json (api_traces empty_store))) d =
     (None, d\<lparr>el_trace_list := Loading ''No traces yet. Run an example to generate traces!''\<rparr>) \<and>
   loadTraces (Resolved (Json (TraceArray []))) d =
     (None, d\<lparr>el_trace_list := Loading ''No traces yet. Run an example to generate traces!''\<rparr>)"
  by (simp add: list_traces_def list_store_def empty_store_def api_traces_def loadTraces_empty)

theorem empty_store_placeholder_witness:
  "el_trace_list (snd (loadTraces (Resolved (Json (api_traces empty_store))) blank_dashboard)) =
     Loading ''No traces yet. Run an example to generate traces!'' \<and>
   el_total_traces (snd (loadTraces (Resolved (Json (api_traces empty_store))) blank_dashboard)) =
     Static ''-'' \<and>
   el_total_spans (snd (loadTraces (Resolved (Json (api_traces empty_store))) blank_dashboard)) =
     Static ''-''"
  using empty_store_placeholder [of blank_dashboard]
  by (simp add: blank_dashboard_def)


section \<open>The order of the rendered spans\<close>

text \<open>
  With an invalid date among the spans the comparator returns \<^verbatim>\<open>NaN\<close>, and the
  views show the spans in the order that the implementation's sort leaves: on the sample
  page, the one of arrival, in which the span that starts at 2 comes before the span
  that starts at 1.
\<close>

lemma array_sort_invalid:
  "\<not> valid_dates parse xs \<Longrightarrow> array_sort impl (by_start_time parse) xs = impl xs"
  by (simp add: array_sort_def never_NaN_by_start_time)

lemma invalid_date_leaves_spans_unsorted:
  "el_execution_graph (snd (loadTrace (Resolved (Json (Trace out_of_range_trace))) blank_viewer)) =
     SpanNodes [renderSpanNode (sample_span ''two'' 2 ''success'') 0,
                renderSpanNode (sample_span ''big'' 9000000000000000 ''success'') 0,
                renderSpanNode (sample_span ''one'' 1 ''success'') 0]"
proof -
  have "\<not> valid_dates (Date_parse blank_viewer) (spans out_of_range_trace)"
    by (simp add: valid_dates_def out_of_range_trace_def sample_span_def time_clip_def)
  then show ?thesis
    by (simp add: loadTrace_Trace array_sort_invalid)
       (simp add: blank_viewer_def out_of_range_trace_def)
qed

text \<open>
  Claim C4 as worded fails. The views order the spans by the time value of
  \<^verbatim>\<open>new Date(start_time)\<close>, which is in whole milliseconds: two spans that start
  within the same millisecond compare equal and keep the order of their arrival. Here
  the span that arrives first starts at 100.9 and the one that arrives second at 100.1;
  both views show the first before the second.
\<close>

theorem spans_within_a_millisecond_keep_arrival_order:
  "el_execution_graph (snd (loadTrace (Resolved (Json (Trace same_millisecond_trace))) blank_viewer)) =
     SpanNodes [renderSpanNode (sample_span ''later'' (1009 / 10) ''success'') 0,
                renderSpanNode (sample_span ''earlier'' (1001 / 10) ''success'') 0] \<and>
   el_span_list (snd (loadTrace (Resolved (Json (Trace same_millisecond_trace))) blank_viewer)) =
     SpanRows [renderSpanRow (sample_span ''later'' (1009 / 10) ''success''),
               renderSpanRow (sample_span ''earlier'' (1001 / 10) ''success'')] \<and>
   span.start_time (sample_span ''later'' (1009 / 10) ''success'') = TimeNumber (1009 / 10) \<and>
   span.start_time (sample_span ''earlier'' (1001 / 10) ''success'') = TimeNumber (1001 / 10) \<and>
   (1001 / 10 :: rat) < 1009 / 10"
proof -
  have floors: "\<lfloor>1009 / 10 :: rat\<rfloor> = 100" "\<lfloor>1001 / 10 :: rat\<rfloor> = 100"
    by (simp_all add: floor_eq_iff)
  show ?thesis
    by (simp add: loadTrace_Trace same_millisecond_trace_def blank_viewer_def sample_span_def
        array_sort_def never_NaN_def by_start_time_def time_clip_def floors)
qed

text \<open>
  Claim C4, as amended. When the \<^verbatim>\<open>start_time\<close> of every span is a valid date, the
  execution graph and the span list both render the spans of the trace, each span once,
  in ascending order of the time value of \<^verbatim>\<open>new Date(start_time)\<close>, in whole
  milliseconds: of any two rendered spans the one with the smaller time value comes
  first, in whatever order the spans arrive in the trace record.
\<close>

theorem spans_rendered_in_date_order:
  assumes "valid_dates (Date_parse st) (spans t)"
  shows
  "el_execution_graph (snd (loadTrace (Resolved (Json (Trace t))) st)) =
     SpanNodes (map (\<lambda>s. renderSpanNode s 0)
       (array_sort (sort_implementation st) (by_start_time (Date_parse st)) (spans t))) \<and>
   el_span_list (snd (loadTrace (Resolved (Json (Trace t))) st)) =
     SpanRows (map renderSpanRow
       (array_sort (sort_implementation st) (by_start_time (Date_parse st)) (spans t))) \<and>
   mset (array_sort (sort_implementation st) (by_start_time (Date_parse st)) (spans t)) =
     mset (spans t) \<and>
   sorted_wrt (not_after (Date_parse st))
     (array_sort (sort_implementation st) (by_start_time (Date_parse st)) (spans t)) \<and>
   (\<forall>i j x y.
      i < length (array_sort (sort_implementation st) (by_start_time (Date_parse st)) (spans t)) \<and>
      j < length (array_sort (sort_implementation st) (by_start_time (Date_parse st)) (spans t)) \<and>
      date_value (Date_parse st) (span.start_time
        (array_sort (sort_implementation st) (by_start_time (Date_parse st)) (spans t) ! i)) = Some x \<and>
      date_value (Date_parse st) (span.start_time
        (array_sort (sort_implementation st) (by_start_time (Date_parse st)) (spans t) ! j)) = Some y \<and>
      x < y \<longrightarrow> i < j)"
  using assms array_sort_order [OF assms, of _ "sort_implementation st"]
  by (simp add: loadTrace_Trace array_sort_idem mset_array_sort sorted_array_sort)

theorem spans_rendered_in_date_order_witness:
  "valid_dates (Date_parse blank_viewer) (spans sample_trace) \<and>
   date_value (Date_parse blank_viewer) (span.start_time (sample_span ''s2'' 200 ''error'')) = Some 200 \<and>
   date_value (Date_parse blank_viewer) (span.start_time (sample_span ''s1'' 100 ''success'')) = Some 100 \<and>
   map span_id (spans sample_trace) = [''s2'', ''s1''] \<and>
   el_execution_graph (snd (loadTrace (Resolved (Json (Trace sample_trace))) blank_viewer)) =
     SpanNodes [renderSpanNode (sample_span ''s1'' 100 ''success'') 0,
                renderSpanNode (sample_span ''s2'' 200 ''error'') 0] \<and>
   el_span_list (snd (loadTrace (Resolved (Json (Trace sample_trace))) blank_viewer)) =
     SpanRows [renderSpanRow (sample_span ''s1'' 100 ''success''),
               renderSpanRow (sample_span ''s2'' 200 ''error'')]"
proof -
  have valid: "valid_dates (Date_parse blank_viewer) (spans sample_trace)"
    by (simp add: valid_dates_def sample_trace_def sample_span_def time_clip_def)
  have sorted: "array_sort (sort_implementation blank_viewer) (by_start_time (Date_parse blank_viewer))
      (spans sample_trace) = [sample_span ''s1'' 100 ''success'', sample_span ''s2'' 200 ''error'']"
    by (simp add: sample_trace_def sample_span_def array_sort_def never_NaN_def by_start_time_def
        time_clip_def)
  have dates:
    "date_value (Date_parse blank_viewer) (span.start_time (sample_span ''s2'' 200 ''error'')) = Some 200"
    "date_value (Date_parse blank_viewer) (span.start_time (sample_span ''s1'' 100 ''success'')) = Some 100"
    by (simp_all add: sample_span_def time_clip_def)
  have ids: "map span_id (spans sample_trace) = [''s2'', ''s1'']"
    by (simp add: sample_trace_def sample_span_def)
  from spans_rendered_in_date_order [OF valid] sorted valid dates ids show ?thesis
    by simp
qed


section \<open>Display of a span's status\<close>




section \<open>The span detail modal\<close>

text \<open>
  Claim C10. With a trace loaded, \<^verbatim>\<open>showSpanDetail(spanId)\<close> for an identifier that
  matches no span of the trace returns without any effect: the page state is the one it
  started from and the modal is not opened. The modal becomes active only when the
  identifier matches a span of the trace, and then it does.
\<close>

theorem showSpanDetail_unknown_span:
  assumes "currentTrace st = Some (Trace t)"
  shows "((\<forall>s \<in> set (spans t). span_id s \<noteq> spanId) \<longrightarrow> showSpanDetail spanId st = (None, st)) \<and>
         (''active'' \<in> el_span_modal_classList (snd (showSpanDetail spanId st)) \<and>
          ''active'' \<notin> el_span_modal_classList st \<longrightarrow>
            (\<exists>s \<in> set (spans t). span_id s = spanId)) \<and>
         ((\<exists>s \<in> set (spans t). span_id s = spanId) \<longrightarrow>
            ''active'' \<in> el_span_modal_classList (snd (showSpanDetail spanId st)))"
proof (cases "find_first (\<lambda>s. span_id s = spanId) (spans t)")
  case None
  then have no: "\<forall>s \<in> set (spans t). span_id s \<noteq> spanId"
    by (simp add: find_first_None)
  from None assms have "showSpanDetail spanId st = (None, st)"
    by (simp add: showSpanDetail_def)
  with no show ?thesis by simp
next
  case (Some s)
  then have "s \<in> set (spans t)" "span_id s = spanId"
    using find_first_Some [of "\<lambda>s. span_id s = spanId" "spans t" s] by simp_all
  moreover from Some assms
  have "''active'' \<in> el_span_modal_classList (snd (showSpanDetail spanId st))"
    by (simp add: showSpanDetail_def Let_def)
  ultimately show ?thesis by blast
qed

theorem showSpanDetail_unknown_span_witness:
  "currentTrace (blank_viewer\<lparr>currentTrace := Some (Trace sample_trace)\<rparr>) = Some (Trace sample_trace) \<and>
   ''s9'' \<notin> set (map span_id (spans sample_trace)) \<and>
   showSpanDetail ''s9'' (blank_viewer\<lparr>currentTrace := Some (Trace sample_trace)\<rparr>) =
     (None, blank_viewer\<lparr>currentTrace := Some (Trace sample_trace)\<rparr>) \<and>
   ''s1'' \<in> set (map span_id (spans sample_trace)) \<and>
   ''active'' \<in> el_span_modal_classList
     (snd (showSpanDetail ''s1'' (blank_viewer\<lparr>currentTrace := Some (Trace sample_trace)\<rparr>)))"
proof -
  have loaded: "currentTrace (blank_viewer\<lparr>currentTrace := Some (Trace sample_trace)\<rparr>) =
    Some (Trace sample_trace)"
    by simp
  have ids: "map span_id (spans sample_trace) = [''s2'', ''s1'']"
    by (simp add: sample_trace_def sample_span_def)
  have unknown: "\<forall>s \<in> set (spans sample_trace). span_id s \<noteq> ''s9''"
    by (simp add: sample_trace_def sample_span_def)
  have known: "\<exists>s \<in> set (spans sample_trace). span_id s = ''s1''"
    by (simp add: sample_trace_def sample_span_def)
  from showSpanDetail_unknown_span [OF loaded, of "''s9''"] unknown
  have none: "showSpanDetail ''s9'' (blank_viewer\<lparr>currentTrace := Some (Trace sample_trace)\<rparr>) =
     (None, blank_viewer\<lparr>currentTrace := Some (Trace sample_trace)\<rparr>)"
    by blast
  from showSpanDetail_unknown_span [OF loaded, of "''s1''"] known
  have opened: "''active'' \<in> el_span_modal_classList
     (snd (showSpanDetail ''s1'' (blank_viewer\<lparr>currentTrace := Some (Trace sample_trace)\<rparr>)))"
    by blast
  from loaded none opened show ?thesis by (simp add: ids)
qed


section \<open>The store\<close>

text \<open>
  Claim C5. Round trip: \<^verbatim>\<open>save(trace)\<close> followed by \<^verbatim>\<open>load(trace.trace_id)\<close> returns
  a record equal in all fields to the trace that was saved, and so does
  \<^verbatim>\<open>get_trace\<close> of the Query Service.
\<close>

theorem save_load_round_trip:
  "load (trace.trace_id t) (save t st) = Some t \<and>
   fst (get_trace m (trace.trace_id t) (save t st)) = Trace t"
  by (simp add: load_def save_def get_trace_def Let_def)

theorem save_load_round_trip_witness:
  "load ''tr_abc123'' (save sample_trace empty_store) = Some sample_trace"
  using save_load_round_trip [of sample_trace empty_store]
  by (simp add: sample_trace_def)

lemma perform_read: "\<not> is_save op \<Longrightarrow> perform op st = st"
  by (cases op) (simp_all add: list_traces_def get_trace_def split: option.splits)

lemma perform_all_reads: "\<forall>op \<in> set ops. \<not> is_save op \<Longrightarrow> perform_all ops st = st"
  unfolding perform_all_def by (induction ops arbitrary: st) (simp_all add: perform_read)

text \<open>
  Claim C8. Reads are idempotent: for every state of the store, \<^verbatim>\<open>list_traces()\<close>
  called again, after any number of operations none of which is a \<^verbatim>\<open>save\<close>, returns the
  same sequence of summary projections as the first call.
\<close>

theorem list_traces_idempotent:
  assumes "\<forall>op \<in> set ops. \<not> is_save op"
  shows "fst (list_traces (perform_all ops (snd (list_traces st)))) = fst (list_traces st)"
proof -
  have "snd (list_traces st) = st" by (simp add: list_traces_def)
  with assms show ?thesis by (simp add: perform_all_reads)
qed

theorem list_traces_idempotent_witness:
  "\<not> is_save (GetTrace ''Trace not found'' ''tr_abc123'') \<and> \<not> is_save ListTraces \<and>
   fst (list_traces (perform_all [GetTrace ''Trace not found'' ''tr_abc123'', ListTraces]
          (snd (list_traces (save sample_trace empty_store))))) =
   fst (list_traces (save sample_trace empty_store)) \<and>
   length (fst (list_traces (save sample_trace empty_store))) = 1"
proof -
  have reads: "\<forall>op \<in> set [GetTrace ''Trace not found'' ''tr_abc123'', ListTraces]. \<not> is_save op"
    by simp
  have "length (fst (list_traces (save sample_trace empty_store))) = 1"
    by (simp add: list_traces_def list_store_def save_def empty_store_def Let_def)
  with list_traces_idempotent [OF reads, of "save sample_trace empty_store"]
  show ?thesis by simp
qed


section \<open>The duration of a closed span\<close>






























end
